theory Spec2Isabelle
  imports Main "HOL-Library.Sublist"
begin

section \<open>Python values used by the transcription service\<close>

text \<open>
  A Python \<open>str\<close> is a sequence of Unicode code points, and \<open>len\<close> counts code points;
  a code point is a natural number here. \<open>lit\<close> turns an ASCII literal of the source
  into such a sequence.
\<close>

type_synonym pystr = "nat list"

definition lit :: "string \<Rightarrow> pystr" where
  "lit s = map of_char s"

text \<open>
  \<open>str.isspace\<close> for one code point: the code points CPython treats as whitespace
  (bidirectional class WS, B or S, or general category Zs).
\<close>

definition isspace :: "nat \<Rightarrow> bool" where
  "isspace c \<longleftrightarrow>
     (0x09 \<le> c \<and> c \<le> 0x0D) \<or> (0x1C \<le> c \<and> c \<le> 0x20) \<or> c = 0x85 \<or> c = 0xA0 \<or>
     c = 0x1680 \<or> (0x2000 \<le> c \<and> c \<le> 0x200A) \<or> c = 0x2028 \<or> c = 0x2029 \<or>
     c = 0x202F \<or> c = 0x205F \<or> c = 0x3000"

text \<open>\<open>s.strip()\<close>: leading and trailing whitespace removed.\<close>

definition strip :: "pystr \<Rightarrow> pystr" where
  "strip s = rev (dropWhile isspace (rev (dropWhile isspace s)))"

text \<open>\<open>str(n)\<close> of a non-negative integer, as an f-string renders it: decimal digits.\<close>

fun str_nat :: "nat \<Rightarrow> pystr" where
  "str_nat n = (if n < 10 then [48 + n] else str_nat (n div 10) @ [48 + n mod 10])"

declare str_nat.simps [simp del]

text \<open>Reading a decimal rendering back; used only to state that \<open>str_nat\<close> is one.\<close>

definition decimal_value :: "pystr \<Rightarrow> nat" where
  "decimal_value ds = foldl (\<lambda>a d. 10 * a + (d - 48)) 0 ds"

text \<open>\<open>os.path.join(a, b)\<close> of \<open>posixpath\<close>, for two components.\<close>

definition path_join :: "pystr \<Rightarrow> pystr \<Rightarrow> pystr" where
  "path_join a b =
     (if b \<noteq> [] \<and> hd b = 47 then b
      else if a = [] \<or> last a = 47 then a @ b
      else a @ [47] @ b)"

text \<open>
  Exceptions. \<open>HTTPException status detail\<close> is FastAPI's; \<open>Exception m\<close> is any other
  instance of \<open>Exception\<close>, with \<open>m\<close> its \<open>str(e)\<close>.
\<close>

datatype py_exc = HTTPException nat pystr | Exception pystr

text \<open>
  A call into a collaborator (operating system, downloader, engine, registry) either
  returns or raises an \<open>Exception\<close> that is not an \<open>HTTPException\<close>; \<open>Raises m\<close> carries
  its \<open>str(e)\<close>.
\<close>

datatype 'a outcome = Returns 'a | Raises pystr

text \<open>
  Python floats are IEEE doubles; their arithmetic is not part of the repository. The
  operations the handler applies to them are parameters of the model, over a carrier \<open>'f\<close>:
  \<open>a - b\<close>, \<open>a * k\<close> for an integer \<open>k\<close>, \<open>round(a, n)\<close>, \<open>int(a)\<close> (truncation, which raises
  on NaN and infinities) and the format \<open>{a:.0f}\<close>.
\<close>

record 'f float_ops =
  fsub :: "'f \<Rightarrow> 'f \<Rightarrow> 'f"
  fmul :: "'f \<Rightarrow> int \<Rightarrow> 'f"
  round_nd :: "'f \<Rightarrow> nat \<Rightarrow> 'f"
  to_int :: "'f \<Rightarrow> pystr + int"
  fmt_0f :: "'f \<Rightarrow> pystr"

section \<open>Engine objects and the response shape\<close>

text \<open>The engine's word (\<open>w.word\<close>, \<open>w.start\<close>) and segment (\<open>s.text\<close>, \<open>s.start\<close>, \<open>s.end\<close>, \<open>s.words\<close>).\<close>

record 'f engine_word =
  w_word :: pystr
  w_start :: 'f

record 'f engine_segment =
  s_text :: pystr
  s_start :: 'f
  s_end :: 'f
  s_words :: "'f engine_word list option"

text \<open>
  The engine hands back a generator: a finite, single-pass stream whose next step yields a
  segment, stops, or raises.
\<close>

datatype 'a gen = Stop | Yield 'a "'a gen" | GenRaises pystr

fun gen_items :: "'a gen \<Rightarrow> 'a list" where
  "gen_items Stop = []"
| "gen_items (Yield x g) = x # gen_items g"
| "gen_items (GenRaises e) = []"

text \<open>
  The output dictionaries: a word \<open>{"text", "startMs"}\<close>, a segment
  \<open>{"text", "offset", "duration"}\<close> with an optional key \<open>"words"\<close> (\<open>None\<close>: key absent),
  and the response body \<open>{"segments", "duration"}\<close>.
\<close>

record out_word =
  word_text :: pystr
  startMs :: int

record 'f out_segment =
  seg_text :: pystr
  offset :: 'f
  duration :: 'f
  words :: "out_word list option"

record 'f response =
  segments :: "'f out_segment list"
  audio_duration :: 'f

section \<open>The world the service runs in\<close>

text \<open>\<open>subprocess.CompletedProcess\<close> with captured text output.\<close>

record completed_process =
  returncode :: int
  stdout :: pystr
  stderr :: pystr

text \<open>
  The registry request built by \<open>register_service\<close>: URL, the JSON object posted (as its
  key/value pairs), headers and method.
\<close>

record registry_request =
  full_url :: pystr
  json_data :: "(pystr \<times> pystr) list"
  headers :: "(pystr \<times> pystr) list"
  http_method :: pystr

text \<open>
  What the collaborators answer. \<open>mkdtemp_name\<close> is the random name \<open>tempfile.mkdtemp\<close>
  picks (or its failure); \<open>rmtree_removes p\<close> tells whether removing the tree at \<open>p\<close>
  goes through; \<open>load_model\<close> is the construction of \<open>WhisperModel\<close> (the import of
  the installed package is taken to succeed);
  \<open>model_transcribe\<close> gives the generator of segments and \<open>info.duration\<close>;
  \<open>registry_post\<close> is the construction of the \<open>Request\<close> and \<open>urlopen\<close> on it;
  \<open>print_out m\<close> tells whether \<open>print(m)\<close> writes the line or raises (an encoding
  error on a stream that cannot encode \<open>m\<close>, a closed pipe).
\<close>

record 'f env =
  sys_executable :: pystr
  mkdtemp_name :: "pystr outcome"
  subprocess_run :: "pystr list \<Rightarrow> completed_process outcome"
  glob_glob :: "pystr \<Rightarrow> pystr list outcome"
  getsize :: "pystr \<Rightarrow> nat outcome"
  load_model :: "unit outcome"
  model_transcribe :: "pystr \<Rightarrow> ('f engine_segment gen \<times> 'f) outcome"
  rmtree_removes :: "pystr \<Rightarrow> bool"
  environ_get :: "pystr \<Rightarrow> pystr option"
  nodename :: pystr
  registry_post :: "registry_request \<Rightarrow> unit outcome"
  print_out :: "pystr \<Rightarrow> unit outcome"

text \<open>Every effect of the service is recorded, in order.\<close>

datatype event =
    Mkdtemp pystr
  | SubprocessRun "pystr list"
  | Glob pystr
  | Getsize pystr
  | LoadModel
  | ModelTranscribe pystr
  | Rmtree pystr
  | RegistryPost registry_request
  | Print pystr

text \<open>
  The state: the temp directories that exist, whether the global \<open>_model\<close> is set, and
  the effects so far.
\<close>

record state =
  dirs :: "pystr set"
  model_loaded :: bool
  trace :: "event list"

definition emit :: "event \<Rightarrow> state \<Rightarrow> state" where
  "emit e st = st\<lparr>trace := trace st @ [e]\<rparr>"

text \<open>\<open>print(m)\<close>: the line is written, or the call raises and nothing is recorded.\<close>

definition py_print :: "'f env \<Rightarrow> pystr \<Rightarrow> state \<Rightarrow> (py_exc + unit) \<times> state" where
  "py_print env m st =
     (case print_out env m of
        Returns u \<Rightarrow> (Inr (), emit (Print m) st)
      | Raises e \<Rightarrow> (Inl (Exception e), st))"

section \<open>The engine singleton\<close>

text \<open>\<open>get_model\<close>: loads the model on first use and keeps it in the global.\<close>

definition get_model :: "'f env \<Rightarrow> state \<Rightarrow> (py_exc + unit) \<times> state" where
  "get_model env st =
     (if model_loaded st then (Inr (), st)
      else
        (case py_print env (lit ''[whisperx] Loading model on GPU...'') st of
           (Inl e, st1) \<Rightarrow> (Inl e, st1)
         | (Inr u, st1) \<Rightarrow>
             (let st2 = emit LoadModel st1
              in (case load_model env of
                    Raises e \<Rightarrow> (Inl (Exception e), st2)
                  | Returns m \<Rightarrow>
                      py_print env (lit ''[whisperx] Model ready.'')
                        (st2\<lparr>model_loaded := True\<rparr>)))))"

section \<open>Shaping the engine output\<close>

text \<open>
  The list comprehension over \<open>s.words\<close>: words that strip to the empty string are
  skipped; for the others \<open>int(w.start * 1000)\<close> is computed, and its failure ends the
  comprehension.
\<close>

fun shape_words :: "'f float_ops \<Rightarrow> 'f engine_word list \<Rightarrow> py_exc + out_word list" where
  "shape_words ops [] = Inr []"
| "shape_words ops (w # ws) =
     (if strip (w_word w) \<noteq> [] then
        (case to_int ops (fmul ops (w_start w) 1000) of
           Inl e \<Rightarrow> Inl (Exception e)
         | Inr ms \<Rightarrow>
             (case shape_words ops ws of
                Inl e \<Rightarrow> Inl e
              | Inr r \<Rightarrow> Inr (\<lparr>word_text = strip (w_word w), startMs = ms\<rparr> # r)))
      else shape_words ops ws)"

text \<open>The body of the loop: \<open>if s.words\<close> holds for a list that is present and not empty.\<close>

definition shape_segment :: "'f float_ops \<Rightarrow> 'f engine_segment \<Rightarrow> py_exc + 'f out_segment" where
  "shape_segment ops s =
     (let seg = \<lparr>seg_text = strip (s_text s),
                 offset = round_nd ops (s_start s) 3,
                 duration = round_nd ops (fsub ops (s_end s) (s_start s)) 3,
                 words = None\<rparr>
      in (case s_words s of
            None \<Rightarrow> Inr seg
          | Some [] \<Rightarrow> Inr seg
          | Some (w # ws) \<Rightarrow>
              (case shape_words ops (w # ws) of
                 Inl e \<Rightarrow> Inl e
               | Inr r \<Rightarrow> Inr (seg\<lparr>words := Some r\<rparr>))))"

text \<open>\<open>for s in segs_gen: ... segments.append(seg)\<close>, with \<open>segments\<close> as accumulator.\<close>

fun shape_loop ::
  "'f float_ops \<Rightarrow> 'f engine_segment gen \<Rightarrow> 'f out_segment list \<Rightarrow> py_exc + 'f out_segment list"
where
  "shape_loop ops Stop acc = Inr acc"
| "shape_loop ops (GenRaises e) acc = Inl (Exception e)"
| "shape_loop ops (Yield s g) acc =
     (case shape_segment ops s of
        Inl e \<Rightarrow> Inl e
      | Inr seg \<Rightarrow> shape_loop ops g (acc @ [seg]))"

section \<open>POST /transcribe\<close>

definition tmpdir_of :: "pystr \<Rightarrow> pystr" where
  "tmpdir_of name = path_join (lit ''/tmp'') (lit ''whisperx-'' @ name)"

definition downloader_argv :: "'f env \<Rightarrow> pystr \<Rightarrow> pystr \<Rightarrow> pystr list" where
  "downloader_argv env tmpdir vid =
     [sys_executable env, lit ''-m'', lit ''yt_dlp'',
      lit ''-f'', lit ''bestaudio[ext=webm]/bestaudio'',
      lit ''--no-playlist'', lit ''--no-warnings'',
      lit ''-o'', path_join tmpdir (lit ''audio.%(ext)s''),
      lit ''https://www.youtube.com/watch?v='' @ vid]"

definition audio_glob :: "pystr \<Rightarrow> pystr" where
  "audio_glob tmpdir = path_join tmpdir (lit ''audio.*'')"

text \<open>Download and checks of the audio file: from \<open>subprocess.run\<close> to the first \<open>print\<close>.\<close>

definition fetch_audio ::
  "'f env \<Rightarrow> pystr \<Rightarrow> pystr \<Rightarrow> state \<Rightarrow> (py_exc + pystr) \<times> state"
where
  "fetch_audio env vid tmpdir st =
     (let argv = downloader_argv env tmpdir vid;
          st1 = emit (SubprocessRun argv) st
      in (case subprocess_run env argv of
            Raises e \<Rightarrow> (Inl (Exception e), st1)
          | Returns r \<Rightarrow>
              (if returncode r \<noteq> 0 then
                 (Inl (HTTPException 502 (lit ''Audio download failed: '' @ take 300 (stderr r))), st1)
               else
                 (let st2 = emit (Glob (audio_glob tmpdir)) st1
                  in (case glob_glob env (audio_glob tmpdir) of
                        Raises e \<Rightarrow> (Inl (Exception e), st2)
                      | Returns [] \<Rightarrow>
                          (Inl (HTTPException 502
                                 (lit ''No audio file found. stdout: '' @ take 200 (stdout r))), st2)
                      | Returns (audio_path # rest) \<Rightarrow>
                          (let st3 = emit (Getsize audio_path) st2
                           in (case getsize env audio_path of
                                 Raises e \<Rightarrow> (Inl (Exception e), st3)
                               | Returns fsize \<Rightarrow>
                                   (if fsize < 1000 then
                                      (Inl (HTTPException 502
                                             (lit ''Audio too small ('' @ str_nat fsize
                                              @ lit '' bytes)'')),
                                       st3)
                                    else
                                      (case py_print env
                                              (lit ''[whisperx] '' @ vid @ lit '': downloaded ''
                                               @ str_nat fsize @ lit '' bytes to '' @ audio_path)
                                              st3 of
                                         (Inl e, st4) \<Rightarrow> (Inl e, st4)
                                       | (Inr u, st4) \<Rightarrow> (Inr audio_path, st4))))))))))"

text \<open>From \<open>get_model()\<close> to the \<open>return\<close>.\<close>

definition run_engine ::
  "'f float_ops \<Rightarrow> 'f env \<Rightarrow> pystr \<Rightarrow> pystr \<Rightarrow> state \<Rightarrow> (py_exc + 'f response) \<times> state"
where
  "run_engine ops env vid audio_path st =
     (case get_model env st of
        (Inl e, st1) \<Rightarrow> (Inl e, st1)
      | (Inr u, st1) \<Rightarrow>
          (let st2 = emit (ModelTranscribe audio_path) st1
           in (case model_transcribe env audio_path of
                 Raises e \<Rightarrow> (Inl (Exception e), st2)
               | Returns (segs_gen, info_duration) \<Rightarrow>
                   (case shape_loop ops segs_gen [] of
                      Inl e \<Rightarrow> (Inl e, st2)
                    | Inr segs \<Rightarrow>
                        (case py_print env
                                (lit ''[whisperx] '' @ vid @ lit '': '' @ str_nat (length segs)
                                 @ lit '' segments, '' @ fmt_0f ops info_duration
                                 @ lit ''s audio'')
                                st2 of
                           (Inl e, st3) \<Rightarrow> (Inl e, st3)
                         | (Inr u, st3) \<Rightarrow>
                             (Inr \<lparr>segments = segs, audio_duration = info_duration\<rparr>,
                              st3))))))"

text \<open>The body of the \<open>try\<close>.\<close>

definition transcribe_try ::
  "'f float_ops \<Rightarrow> 'f env \<Rightarrow> pystr \<Rightarrow> pystr \<Rightarrow> state \<Rightarrow> (py_exc + 'f response) \<times> state"
where
  "transcribe_try ops env vid tmpdir st =
     (case fetch_audio env vid tmpdir st of
        (Inl e, st1) \<Rightarrow> (Inl e, st1)
      | (Inr audio_path, st1) \<Rightarrow> run_engine ops env vid audio_path st1)"

text \<open>
  The two \<open>except\<close> clauses: an \<open>HTTPException\<close> is raised again as it is, any other
  \<open>Exception\<close> becomes \<open>HTTPException(500, str(e))\<close>.
\<close>

fun except_clauses :: "py_exc + 'a \<Rightarrow> py_exc + 'a" where
  "except_clauses (Inl (HTTPException status detail)) = Inl (HTTPException status detail)"
| "except_clauses (Inl (Exception e)) = Inl (HTTPException 500 e)"
| "except_clauses (Inr v) = Inr v"

text \<open>
  The \<open>finally\<close> clause: \<open>shutil.rmtree(tmpdir, ignore_errors=True)\<close>. A removal that
  fails raises nothing and leaves the directory.
\<close>

definition rmtree :: "'f env \<Rightarrow> pystr \<Rightarrow> state \<Rightarrow> state" where
  "rmtree env p st =
     emit (Rmtree p) (if rmtree_removes env p then st\<lparr>dirs := dirs st - {p}\<rparr> else st)"

text \<open>
  The handler. \<open>Inr\<close> is the body of the 200 response; \<open>Inl\<close> is the exception that leaves
  the handler. The validation and \<open>mkdtemp\<close> come before the \<open>try\<close>.
\<close>

definition transcribe ::
  "'f float_ops \<Rightarrow> 'f env \<Rightarrow> pystr \<Rightarrow> state \<Rightarrow> (py_exc + 'f response) \<times> state"
where
  "transcribe ops env vid st =
     (if vid = [] \<or> length vid \<noteq> 11 then (Inl (HTTPException 400 (lit ''Invalid video_id'')), st)
      else
        (case mkdtemp_name env of
           Raises e \<Rightarrow> (Inl (Exception e), st)
         | Returns name \<Rightarrow>
             (let tmpdir = tmpdir_of name;
                  st1 = emit (Mkdtemp tmpdir) (st\<lparr>dirs := insert tmpdir (dirs st)\<rparr>)
              in (case transcribe_try ops env vid tmpdir st1 of
                    (r, st2) \<Rightarrow> (except_clauses r, rmtree env tmpdir st2)))))"

section \<open>Service registration at startup\<close>









section \<open>A concrete world\<close>

text \<open>
  Floats that are whole numbers behave like integers: subtraction and multiplication are
  exact, rounding to three places changes nothing and \<open>int\<close> is the identity.
\<close>

definition whole_ops :: "int float_ops" where
  "whole_ops =
     \<lparr>fsub = (\<lambda>a b. a - b),
      fmul = (\<lambda>a k. a * k),
      round_nd = (\<lambda>a n. a),
      to_int = (\<lambda>a. Inr a),
      fmt_0f = (\<lambda>a. if a < 0 then 45 # str_nat (nat (- a)) else str_nat (nat a))\<rparr>"

definition st0 :: state where
  "st0 = \<lparr>dirs = {}, model_loaded = False, trace = []\<rparr>"

definition seg_hello :: "int engine_segment" where
  "seg_hello =
     \<lparr>s_text = lit '' Hello world '', s_start = 0, s_end = 2,
      s_words = Some [\<lparr>w_word = lit ''Hello '', w_start = 0\<rparr>,
                      \<lparr>w_word = lit '' '', w_start = 1\<rparr>,
                      \<lparr>w_word = lit '' world'', w_start = 1\<rparr>]\<rparr>"

definition seg_blank :: "int engine_segment" where
  "seg_blank =
     \<lparr>s_text = lit '' '', s_start = 2, s_end = 3,
      s_words = Some [\<lparr>w_word = lit '' '', w_start = 2\<rparr>]\<rparr>"

definition seg_nowords :: "int engine_segment" where
  "seg_nowords = \<lparr>s_text = lit ''bye'', s_start = 3, s_end = 5, s_words = None\<rparr>"

definition audio0 :: pystr where
  "audio0 = lit ''/tmp/whisperx-abc/audio.webm''"

definition gen0 :: "int engine_segment gen" where
  "gen0 = Yield seg_hello (Yield seg_blank (Yield seg_nowords Stop))"

text \<open>A world in which every collaborator succeeds; no registry credentials are set.\<close>

definition env_ok :: "int env" where
  "env_ok =
     \<lparr>sys_executable = lit ''/usr/bin/python3'',
      mkdtemp_name = Returns (lit ''abc''),
      subprocess_run = (\<lambda>argv. Returns \<lparr>returncode = 0, stdout = [], stderr = []\<rparr>),
      glob_glob = (\<lambda>pat. Returns [audio0]),
      getsize = (\<lambda>p. Returns 50000),
      load_model = Returns (),
      model_transcribe = (\<lambda>p. Returns (gen0, 5)),
      rmtree_removes = (\<lambda>p. True),
      environ_get = (\<lambda>k. None),
      nodename = lit ''gpu1'',
      registry_post = (\<lambda>r. Returns ()),
      print_out = (\<lambda>m. Returns ())\<rparr>"

definition vid0 :: pystr where
  "vid0 = lit ''dQw4w9WgXcQ''"

text \<open>Variants: one collaborator misbehaves.\<close>

definition env_rmtree_fails :: "int env" where
  "env_rmtree_fails = env_ok\<lparr>rmtree_removes := (\<lambda>p. False)\<rparr>"

definition env_mkdtemp_fails :: "int env" where
  "env_mkdtemp_fails = env_ok\<lparr>mkdtemp_name := Raises (lit ''[Errno 28] No space left on device'')\<rparr>"

definition env_download_fails :: "int env" where
  "env_download_fails =
     env_ok\<lparr>subprocess_run :=
       (\<lambda>argv. Returns \<lparr>returncode = 1, stdout = [], stderr = lit ''ERROR: Video unavailable''\<rparr>)\<rparr>"

definition env_small_audio :: "int env" where
  "env_small_audio = env_ok\<lparr>getsize := (\<lambda>p. Returns 512)\<rparr>"

definition env_engine_fails :: "int env" where
  "env_engine_fails = env_ok\<lparr>model_transcribe := (\<lambda>p. Raises (lit ''CUDA out of memory''))\<rparr>"





text \<open>The body the handler returns in the world \<open>env_ok\<close>.\<close>

definition resp0 :: "int response" where
  "resp0 =
     \<lparr>segments =
        [\<lparr>seg_text = lit ''Hello world'', offset = 0, duration = 2,
          words = Some [\<lparr>word_text = lit ''Hello'', startMs = 0\<rparr>,
                        \<lparr>word_text = lit ''world'', startMs = 1000\<rparr>]\<rparr>,
         \<lparr>seg_text = [], offset = 2, duration = 1, words = Some []\<rparr>,
         \<lparr>seg_text = lit ''bye'', offset = 3, duration = 2, words = None\<rparr>],
      audio_duration = 5\<rparr>"

section \<open>Basic facts about the model\<close>

lemma trace_emit [simp]: "trace (emit e st) = trace st @ [e]"
  by (simp add: emit_def)

lemma dirs_emit [simp]: "dirs (emit e st) = dirs st"
  by (simp add: emit_def)

lemma model_loaded_emit [simp]: "model_loaded (emit e st) = model_loaded st"
  by (simp add: emit_def)


lemma py_print_raises:
  "print_out env m = Raises e \<Longrightarrow> py_print env m st = (Inl (Exception e), st)"
  by (simp add: py_print_def)

lemma py_print_dirs [simp]: "dirs (snd (py_print env m st)) = dirs st"
  by (simp add: py_print_def split: outcome.splits)

lemma py_print_model_loaded [simp]: "model_loaded (snd (py_print env m st)) = model_loaded st"
  by (simp add: py_print_def split: outcome.splits)


lemma decimal_value_snoc: "decimal_value (ds @ [d]) = 10 * decimal_value ds + (d - 48)"
  by (simp add: decimal_value_def)

lemma str_nat_decimal: "decimal_value (str_nat n) = n"
proof (induction n rule: str_nat.induct)
  case (1 n)
  show ?case
  proof (cases "n < 10")
    case True
    then show ?thesis by (simp add: str_nat.simps [of n] decimal_value_def)
  next
    case False
    with 1 have "decimal_value (str_nat (n div 10)) = n div 10" by simp
    with False show ?thesis
      by (simp add: str_nat.simps [of n] decimal_value_snoc)
  qed
qed

lemma rev_dropWhile_takeWhile:
  "rev (dropWhile P (rev xs)) @ rev (takeWhile P (rev xs)) = xs"
proof -
  have "rev (dropWhile P (rev xs)) @ rev (takeWhile P (rev xs)) =
        rev (takeWhile P (rev xs) @ dropWhile P (rev xs))"
    by (simp only: rev_append)
  also have "\<dots> = rev (rev xs)"
    by (simp only: takeWhile_dropWhile_id)
  finally show ?thesis by simp
qed

lemma strip_suffix:
  "strip s @ rev (takeWhile isspace (rev (dropWhile isspace s))) = dropWhile isspace s"
  unfolding strip_def by (rule rev_dropWhile_takeWhile)

lemma strip_decomp:
  "\<exists>pre post. s = pre @ strip s @ post \<and> (\<forall>c \<in> set pre. isspace c) \<and> (\<forall>c \<in> set post. isspace c)"
proof -
  let ?a = "takeWhile isspace s" and ?m = "dropWhile isspace s"
  let ?b = "rev (takeWhile isspace (rev ?m))"
  have "s = ?a @ ?m" by simp
  then have "s = ?a @ strip s @ ?b" by (simp only: strip_suffix)
  moreover have "\<forall>c \<in> set ?a. isspace c" by (auto dest: set_takeWhileD)
  moreover have "\<forall>c \<in> set ?b. isspace c" by (auto dest: set_takeWhileD)
  ultimately show ?thesis by blast
qed

lemma strip_edges:
  assumes "strip s \<noteq> []"
  shows "\<not> isspace (hd (strip s)) \<and> \<not> isspace (last (strip s))"
proof -
  let ?m = "dropWhile isspace s"
  let ?r = "dropWhile isspace (rev ?m)"
  from assms have r: "?r \<noteq> []" by (simp add: strip_def)
  then have "\<not> isspace (hd ?r)" by (rule hd_dropWhile)
  with r have l: "\<not> isspace (last (strip s))" by (simp add: strip_def last_rev)
  have m: "?m \<noteq> []"
  proof
    assume "?m = []"
    then have "?r = []" by (simp only: rev.simps dropWhile.simps)
    with r show False by (simp only: not_False_eq_True simp_thms)
  qed
  then have hm: "\<not> isspace (hd ?m)" by (rule hd_dropWhile)
  from assms have "hd (strip s @ rev (takeWhile isspace (rev ?m))) = hd (strip s)"
    by (rule hd_append2)
  then have "hd ?m = hd (strip s)" by (simp only: strip_suffix)
  with hm l show ?thesis by simp
qed

lemma get_model_dirs: "dirs (snd (get_model env st)) = dirs st"
  by (simp add: get_model_def py_print_def Let_def split: outcome.splits)

lemma fetch_audio_dirs: "dirs (snd (fetch_audio env vid tmpdir st)) = dirs st"
  by (simp add: fetch_audio_def py_print_def Let_def split: outcome.splits list.splits)

lemma run_engine_dirs: "dirs (snd (run_engine ops env vid p st)) = dirs st"
proof (cases "get_model env st")
  case (Pair r st1)
  with get_model_dirs [of env st] have "dirs st1 = dirs st" by simp
  with Pair show ?thesis
    by (simp add: run_engine_def py_print_def Let_def
          split: sum.splits outcome.splits prod.splits)
qed

lemma transcribe_try_dirs: "dirs (snd (transcribe_try ops env vid tmpdir st)) = dirs st"
proof (cases "fetch_audio env vid tmpdir st")
  case (Pair r st1)
  with fetch_audio_dirs [of env vid tmpdir st] have "dirs st1 = dirs st" by simp
  with Pair show ?thesis
    by (cases r) (simp_all add: transcribe_try_def run_engine_dirs)
qed

lemma rmtree_last: "last (trace (rmtree env p st)) = Rmtree p"
  by (simp add: rmtree_def)

lemma rmtree_dirs:
  "dirs (rmtree env p st) = (if rmtree_removes env p then dirs st - {p} else dirs st)"
  by (simp add: rmtree_def)

lemma transcribe_unfold:
  assumes "length vid = 11" and "mkdtemp_name env = Returns name"
  shows "transcribe ops env vid st =
    (except_clauses (fst (transcribe_try ops env vid (tmpdir_of name)
        (emit (Mkdtemp (tmpdir_of name)) (st\<lparr>dirs := insert (tmpdir_of name) (dirs st)\<rparr>)))),
     rmtree env (tmpdir_of name) (snd (transcribe_try ops env vid (tmpdir_of name)
        (emit (Mkdtemp (tmpdir_of name)) (st\<lparr>dirs := insert (tmpdir_of name) (dirs st)\<rparr>)))))"
proof -
  from assms(1) have "vid \<noteq> []" by auto
  with assms show ?thesis
    by (simp add: transcribe_def Let_def split: prod.splits)
qed

lemma except_clauses_Inr: "except_clauses r = Inr v \<longleftrightarrow> r = Inr v"
  by (cases r rule: except_clauses.cases) simp_all

lemma except_clauses_not_Exception: "except_clauses r \<noteq> Inl (Exception e)"
  by (cases r rule: except_clauses.cases) simp_all

section \<open>The shaping loop and the successful run\<close>

lemma shape_words_spec:
  "shape_words ops ws = Inr out \<Longrightarrow>
   map (\<lambda>x. (word_text x, Inr (startMs x))) out =
   map (\<lambda>w. (strip (w_word w), to_int ops (fmul ops (w_start w) 1000)))
     (filter (\<lambda>w. strip (w_word w) \<noteq> []) ws)"
proof (induction ws arbitrary: out)
  case Nil
  then show ?case by simp
next
  case (Cons w ws)
  show ?case
  proof (cases "strip (w_word w) \<noteq> []")
    case False
    with Cons show ?thesis by simp
  next
    case True
    with Cons.prems obtain ms r where
      ms: "to_int ops (fmul ops (w_start w) 1000) = Inr ms" and
      r: "shape_words ops ws = Inr r" and
      out: "out = \<lparr>word_text = strip (w_word w), startMs = ms\<rparr> # r"
      by (auto split: sum.splits)
    from Cons.IH [OF r] True ms out show ?thesis by simp
  qed
qed

lemma shape_segment_fields:
  assumes "shape_segment ops s = Inr seg"
  shows "seg_text seg = strip (s_text s)"
    and "offset seg = round_nd ops (s_start s) 3"
    and "duration seg = round_nd ops (fsub ops (s_end s) (s_start s)) 3"
  using assms
  by (auto simp: shape_segment_def Let_def split: option.splits list.splits sum.splits)

lemma shape_segment_words:
  assumes "shape_segment ops s = Inr seg"
  shows "words seg =
    (case s_words s of None \<Rightarrow> None | Some [] \<Rightarrow> None
     | Some (w # ws) \<Rightarrow>
        (case shape_words ops (w # ws) of Inl e \<Rightarrow> None | Inr r \<Rightarrow> Some r))"
  using assms
  by (auto simp: shape_segment_def Let_def simp del: shape_words.simps
        split: option.splits list.splits sum.splits)

lemma shape_segment_words_Some:
  assumes "shape_segment ops s = Inr seg" and "words seg = Some out"
  shows "\<exists>src. s_words s = Some src \<and> src \<noteq> [] \<and> shape_words ops src = Inr out"
  using assms
  by (auto simp: shape_segment_def Let_def simp del: shape_words.simps
        split: option.splits list.splits sum.splits)

lemma shape_loop_acc:
  "shape_loop ops g acc = Inr out \<Longrightarrow>
   map Inr out = map Inr acc @ map (shape_segment ops) (gen_items g)"
proof (induction g arbitrary: acc)
  case Stop
  then show ?case by simp
next
  case (Yield s g)
  then obtain seg where seg: "shape_segment ops s = Inr seg"
    and rest: "shape_loop ops g (acc @ [seg]) = Inr out"
    by (auto split: sum.splits)
  from Yield.IH [OF rest] seg show ?case by simp
next
  case (GenRaises e)
  then show ?case by simp
qed

lemma shape_loop_all:
  assumes "shape_loop ops g [] = Inr out"
  shows "map Inr out = map (shape_segment ops) (gen_items g)"
  using shape_loop_acc [OF assms] by simp

lemma shape_loop_nth:
  assumes "shape_loop ops g [] = Inr out" and "i < length (gen_items g)"
  shows "length out = length (gen_items g)"
    and "shape_segment ops (gen_items g ! i) = Inr (out ! i)"
proof -
  have m: "map Inr out = map (shape_segment ops) (gen_items g)"
    using assms(1) by (rule shape_loop_all)
  then have "length (map Inr out :: (py_exc + 'a out_segment) list) =
             length (map (shape_segment ops) (gen_items g))"
    by simp
  then show len: "length out = length (gen_items g)" by simp
  from m have "map Inr out ! i = map (shape_segment ops) (gen_items g) ! i" by simp
  with assms(2) len show "shape_segment ops (gen_items g ! i) = Inr (out ! i)" by simp
qed

lemma fetch_audio_path:
  assumes "fst (fetch_audio env vid tmpdir st) = Inr a"
    and "glob_glob env (audio_glob tmpdir) = Returns (p # ps)"
  shows "a = p"
  using assms
  by (auto simp: fetch_audio_def py_print_def Let_def
        split: outcome.splits list.splits if_splits)

lemma run_engine_result:
  assumes "fst (run_engine ops env vid a st) = Inr resp"
    and "model_transcribe env a = Returns (g, d)"
  shows "shape_loop ops g [] = Inr (segments resp) \<and> audio_duration resp = d"
  using assms
  by (auto simp: run_engine_def py_print_def Let_def
        split: prod.splits sum.splits outcome.splits)

lemma transcribe_try_result:
  assumes "fst (transcribe_try ops env vid tmpdir st) = Inr resp"
    and "glob_glob env (audio_glob tmpdir) = Returns (p # ps)"
    and "model_transcribe env p = Returns (g, d)"
  shows "shape_loop ops g [] = Inr (segments resp) \<and> audio_duration resp = d"
proof (cases "fetch_audio env vid tmpdir st")
  case (Pair r st1)
  with assms(1) obtain a where a: "r = Inr a"
    and run: "fst (run_engine ops env vid a st1) = Inr resp"
    by (cases r) (auto simp: transcribe_try_def)
  from Pair a have "fst (fetch_audio env vid tmpdir st) = Inr a" by simp
  then have "a = p" using assms(2) by (rule fetch_audio_path)
  with run assms(3) show ?thesis by (simp add: run_engine_result)
qed

lemma transcribe_vid_valid:
  assumes "fst (transcribe ops env vid st) = Inr resp"
  shows "length vid = 11"
  using assms by (auto simp: transcribe_def split: if_splits)

lemma transcribe_result:
  assumes "fst (transcribe ops env vid st) = Inr resp"
    and "mkdtemp_name env = Returns name"
    and "glob_glob env (audio_glob (tmpdir_of name)) = Returns (p # ps)"
    and "model_transcribe env p = Returns (g, d)"
  shows "shape_loop ops g [] = Inr (segments resp) \<and> audio_duration resp = d"
proof -
  from assms(1) have len: "length vid = 11" by (rule transcribe_vid_valid)
  let ?st1 = "emit (Mkdtemp (tmpdir_of name)) (st\<lparr>dirs := insert (tmpdir_of name) (dirs st)\<rparr>)"
  from assms(1) have "fst (transcribe_try ops env vid (tmpdir_of name) ?st1) = Inr resp"
    by (simp add: transcribe_unfold [OF len assms(2)] except_clauses_Inr)
  then show ?thesis using assms(3,4) by (rule transcribe_try_result)
qed

section \<open>Runs in the concrete world\<close>

lemmas world_defs = env_ok_def st0_def vid0_def audio0_def gen0_def
  seg_hello_def seg_blank_def seg_nowords_def whole_ops_def resp0_def

lemmas handler_defs = transcribe_def transcribe_try_def fetch_audio_def run_engine_def get_model_def
  py_print_def rmtree_def emit_def tmpdir_of_def downloader_argv_def audio_glob_def path_join_def
  shape_segment_def Let_def lit_def strip_def isspace_def

lemma world_ok_result: "fst (transcribe whole_ops env_ok vid0 st0) = Inr resp0"
  by (simp add: world_defs handler_defs str_nat.simps)

lemma world_ok_mkdtemp: "mkdtemp_name env_ok = Returns (lit ''abc'')"
  by (simp add: env_ok_def)

lemma world_ok_glob: "glob_glob env_ok (audio_glob (tmpdir_of (lit ''abc''))) = Returns (audio0 # [])"
  by (simp add: env_ok_def)

lemma world_ok_engine: "model_transcribe env_ok audio0 = Returns (gen0, 5)"
  by (simp add: env_ok_def)

section \<open>Claims about the response\<close>

text \<open>
  Claim C3. On a successful run the response has one segment per segment the engine
  produced, in the same position, and that segment's text is the engine text stripped,
  its offset is \<open>round(start, 3)\<close> and its duration is \<open>round(end - start, 3)\<close>.
  What \<open>strip\<close> removes is whitespace at both ends and nothing else
  (\<open>strip_decomp\<close>, \<open>strip_edges\<close>). The hypotheses name the answers of the
  collaborators: the temp directory, the file found by the glob, the engine's stream.
\<close>

theorem segment_fields_shaped:
  assumes "fst (transcribe ops env vid st) = Inr resp"
    and "mkdtemp_name env = Returns name"
    and "glob_glob env (audio_glob (tmpdir_of name)) = Returns (p # ps)"
    and "model_transcribe env p = Returns (g, d)"
  shows "length (segments resp) = length (gen_items g) \<and>
    (\<forall>i < length (gen_items g).
       seg_text (segments resp ! i) = strip (s_text (gen_items g ! i)) \<and>
       offset (segments resp ! i) = round_nd ops (s_start (gen_items g ! i)) 3 \<and>
       duration (segments resp ! i) =
         round_nd ops (fsub ops (s_end (gen_items g ! i)) (s_start (gen_items g ! i))) 3)"
proof -
  from assms have loop: "shape_loop ops g [] = Inr (segments resp)"
    by (simp add: transcribe_result)
  then have len: "length (segments resp) = length (gen_items g)"
    using shape_loop_all [OF loop] by (metis length_map)
  have "seg_text (segments resp ! i) = strip (s_text (gen_items g ! i)) \<and>
       offset (segments resp ! i) = round_nd ops (s_start (gen_items g ! i)) 3 \<and>
       duration (segments resp ! i) =
         round_nd ops (fsub ops (s_end (gen_items g ! i)) (s_start (gen_items g ! i))) 3"
    if "i < length (gen_items g)" for i
  proof -
    from loop that have "shape_segment ops (gen_items g ! i) = Inr (segments resp ! i)"
      by (rule shape_loop_nth(2))
    then show ?thesis by (simp add: shape_segment_fields)
  qed
  with len show ?thesis by blast
qed

theorem segment_fields_shaped_witness:
  "fst (transcribe whole_ops env_ok vid0 st0) = Inr resp0 \<and>
   length (segments resp0) = 3 \<and>
   seg_text (segments resp0 ! 0) = strip (lit '' Hello world '') \<and>
   offset (segments resp0 ! 0) = round_nd whole_ops 0 3 \<and>
   duration (segments resp0 ! 0) = round_nd whole_ops (fsub whole_ops 2 0) 3"
proof -
  note t = segment_fields_shaped [OF world_ok_result world_ok_mkdtemp world_ok_glob world_ok_engine]
  from t have "length (segments resp0) = 3" by (simp add: gen0_def)
  moreover from t have "seg_text (segments resp0 ! 0) = strip (s_text (gen_items gen0 ! 0)) \<and>
       offset (segments resp0 ! 0) = round_nd whole_ops (s_start (gen_items gen0 ! 0)) 3 \<and>
       duration (segments resp0 ! 0) =
         round_nd whole_ops (fsub whole_ops (s_end (gen_items gen0 ! 0)) (s_start (gen_items gen0 ! 0))) 3"
    by (simp add: gen0_def)
  ultimately show ?thesis using world_ok_result by (simp add: gen0_def seg_hello_def)
qed

text \<open>
  Claim C8. On a successful run the handler returns a body whose \<open>segments\<close> are the
  shaped segments of the whole engine stream, in the engine's order, and whose
  \<open>duration\<close> is the engine's \<open>info.duration\<close> itself: no float operation is
  applied to it.
\<close>

theorem response_is_shaped_stream:
  assumes "fst (transcribe ops env vid st) = Inr resp"
    and "mkdtemp_name env = Returns name"
    and "glob_glob env (audio_glob (tmpdir_of name)) = Returns (p # ps)"
    and "model_transcribe env p = Returns (g, d)"
  shows "map Inr (segments resp) = map (shape_segment ops) (gen_items g) \<and>
         audio_duration resp = d"
proof -
  from assms have "shape_loop ops g [] = Inr (segments resp)" and "audio_duration resp = d"
    by (simp_all add: transcribe_result)
  then show ?thesis by (simp add: shape_loop_all)
qed

theorem response_is_shaped_stream_witness:
  "fst (transcribe whole_ops env_ok vid0 st0) = Inr resp0 \<and>
   map Inr (segments resp0) =
     [shape_segment whole_ops seg_hello, shape_segment whole_ops seg_blank,
      shape_segment whole_ops seg_nowords] \<and>
   audio_duration resp0 = 5"
  using response_is_shaped_stream [OF world_ok_result world_ok_mkdtemp world_ok_glob world_ok_engine]
    world_ok_result
  by (simp add: gen0_def)

section \<open>Claims about the words of a segment\<close>

lemma shape_words_texts:
  assumes "shape_words ops ws = Inr out"
  shows "map word_text out = map (\<lambda>w. strip (w_word w)) (filter (\<lambda>w. strip (w_word w) \<noteq> []) ws)"
proof -
  have "map fst (map (\<lambda>x. (word_text x, (Inr (startMs x) :: pystr + int))) out) =
        map fst (map (\<lambda>w. (strip (w_word w), to_int ops (fmul ops (w_start w) 1000)))
                  (filter (\<lambda>w. strip (w_word w) \<noteq> []) ws))"
    using shape_words_spec [OF assms] by (rule arg_cong)
  then show ?thesis by (simp add: comp_def)
qed

lemma shape_words_starts:
  assumes "shape_words ops ws = Inr out"
  shows "map (\<lambda>x. Inr (startMs x)) out =
         map (\<lambda>w. to_int ops (fmul ops (w_start w) 1000)) (filter (\<lambda>w. strip (w_word w) \<noteq> []) ws)"
proof -
  have "map snd (map (\<lambda>x. (word_text x, (Inr (startMs x) :: pystr + int))) out) =
        map snd (map (\<lambda>w. (strip (w_word w), to_int ops (fmul ops (w_start w) 1000)))
                  (filter (\<lambda>w. strip (w_word w) \<noteq> []) ws))"
    using shape_words_spec [OF assms] by (rule arg_cong)
  then show ?thesis by (simp add: comp_def)
qed

lemma shape_words_nonempty:
  assumes "shape_words ops ws = Inr out" and "x \<in> set out"
  shows "word_text x \<noteq> []"
proof -
  from assms(2) have "word_text x \<in> set (map word_text out)" by simp
  then have "word_text x \<in> set (map (\<lambda>w. strip (w_word w)) (filter (\<lambda>w. strip (w_word w) \<noteq> []) ws))"
    by (simp only: shape_words_texts [OF assms(1)])
  then show ?thesis by auto
qed

lemma shape_words_length:
  assumes "shape_words ops ws = Inr out"
  shows "length out \<le> length ws"
proof -
  have "length (map word_text out) =
        length (map (\<lambda>w. strip (w_word w)) (filter (\<lambda>w. strip (w_word w) \<noteq> []) ws))"
    by (simp only: shape_words_texts [OF assms])
  then have "length out = length (filter (\<lambda>w. strip (w_word w) \<noteq> []) ws)" by simp
  then show ?thesis by simp
qed

lemma shape_words_all_blank:
  "\<forall>w \<in> set ws. strip (w_word w) = [] \<Longrightarrow> shape_words ops ws = Inr []"
  by (induction ws) simp_all

lemma shape_segment_words_present:
  assumes "shape_segment ops s = Inr seg" and "s_words s = Some (x # xs)"
  shows "\<exists>r. shape_words ops (x # xs) = Inr r \<and> words seg = Some r"
  using assms
  by (auto simp: shape_segment_def Let_def simp del: shape_words.simps split: sum.splits)

text \<open>
  Claim C4. On a successful run, whenever an output segment carries a words list, the
  engine segment in the same position has word data, the output words are exactly the
  engine words whose stripped text is not empty, in order: each output text is the
  stripped engine word and is not empty, the words that strip to the empty string are
  absent (so the output has at most as many words as the input), and each \<open>startMs\<close>
  is \<open>int(w.start * 1000)\<close> of its source word.
\<close>

theorem words_trimmed_filtered:
  assumes "fst (transcribe ops env vid st) = Inr resp"
    and "mkdtemp_name env = Returns name"
    and "glob_glob env (audio_glob (tmpdir_of name)) = Returns (p # ps)"
    and "model_transcribe env p = Returns (g, d)"
  shows "\<forall>i < length (gen_items g). \<forall>out. words (segments resp ! i) = Some out \<longrightarrow>
    (\<exists>src. s_words (gen_items g ! i) = Some src \<and>
       length out \<le> length src \<and>
       (\<forall>x \<in> set out. word_text x \<noteq> []) \<and>
       map word_text out =
         map (\<lambda>w. strip (w_word w)) (filter (\<lambda>w. strip (w_word w) \<noteq> []) src) \<and>
       map (\<lambda>x. Inr (startMs x)) out =
         map (\<lambda>w. to_int ops (fmul ops (w_start w) 1000))
           (filter (\<lambda>w. strip (w_word w) \<noteq> []) src))"
proof (intro allI impI)
  fix i out
  assume i: "i < length (gen_items g)" and out: "words (segments resp ! i) = Some out"
  from assms have loop: "shape_loop ops g [] = Inr (segments resp)"
    by (simp add: transcribe_result)
  from loop i have "shape_segment ops (gen_items g ! i) = Inr (segments resp ! i)"
    by (rule shape_loop_nth(2))
  from shape_segment_words_Some [OF this out] obtain src where
    src: "s_words (gen_items g ! i) = Some src" and sw: "shape_words ops src = Inr out"
    by blast
  from sw have "length out \<le> length src" by (rule shape_words_length)
  moreover have "\<forall>x \<in> set out. word_text x \<noteq> []"
    using shape_words_nonempty [OF sw] by blast
  moreover note shape_words_texts [OF sw] shape_words_starts [OF sw]
  ultimately show "\<exists>src. s_words (gen_items g ! i) = Some src \<and>
       length out \<le> length src \<and>
       (\<forall>x \<in> set out. word_text x \<noteq> []) \<and>
       map word_text out =
         map (\<lambda>w. strip (w_word w)) (filter (\<lambda>w. strip (w_word w) \<noteq> []) src) \<and>
       map (\<lambda>x. Inr (startMs x)) out =
         map (\<lambda>w. to_int ops (fmul ops (w_start w) 1000))
           (filter (\<lambda>w. strip (w_word w) \<noteq> []) src)"
    using src by blast
qed

theorem words_trimmed_filtered_witness:
  "fst (transcribe whole_ops env_ok vid0 st0) = Inr resp0 \<and>
   words (segments resp0 ! 0) =
     Some [\<lparr>word_text = lit ''Hello'', startMs = 0\<rparr>, \<lparr>word_text = lit ''world'', startMs = 1000\<rparr>] \<and>
   map word_text [\<lparr>word_text = lit ''Hello'', startMs = 0\<rparr>, \<lparr>word_text = lit ''world'', startMs = 1000\<rparr>] =
     [strip (lit ''Hello ''), strip (lit '' world'')] \<and>
   [Inr 0, Inr 1000] = [to_int whole_ops (fmul whole_ops 0 1000), to_int whole_ops (fmul whole_ops 1 1000)]"
proof -
  let ?out = "[\<lparr>word_text = lit ''Hello'', startMs = 0\<rparr>, \<lparr>word_text = lit ''world'', startMs = 1000\<rparr>]"
  note t = words_trimmed_filtered [OF world_ok_result world_ok_mkdtemp world_ok_glob world_ok_engine]
  have w: "words (segments resp0 ! 0) = Some ?out" by (simp add: resp0_def)
  have i: "0 < length (gen_items gen0)" by (simp add: gen0_def)
  from t i w obtain src where src: "s_words (gen_items gen0 ! 0) = Some src"
    and tx: "map word_text ?out = map (\<lambda>w. strip (w_word w)) (filter (\<lambda>w. strip (w_word w) \<noteq> []) src)"
    and ms: "map (\<lambda>x. Inr (startMs x)) ?out =
         map (\<lambda>w. to_int whole_ops (fmul whole_ops (w_start w) 1000))
           (filter (\<lambda>w. strip (w_word w) \<noteq> []) src)"
    by blast
  from src have s: "src = [\<lparr>w_word = lit ''Hello '', w_start = 0\<rparr>,
                      \<lparr>w_word = lit '' '', w_start = 1\<rparr>,
                      \<lparr>w_word = lit '' world'', w_start = 1\<rparr>]"
    by (simp add: gen0_def seg_hello_def)
  have f: "filter (\<lambda>w. strip (w_word w) \<noteq> []) src =
      [\<lparr>w_word = lit ''Hello '', w_start = 0\<rparr>, \<lparr>w_word = lit '' world'', w_start = 1::int\<rparr>]"
    unfolding s by (simp add: lit_def strip_def isspace_def)
  from tx ms show ?thesis
    unfolding f using world_ok_result w by simp
qed

text \<open>
  Claim C10. On a successful run the key \<open>words\<close> of an output segment is decided by
  the engine's raw word data: it is absent when the engine segment has no word data
  (\<open>None\<close> or an empty list), present when the engine's list is not empty, and its value
  is the empty list when every engine word strips to the empty string.
\<close>

theorem words_key_presence:
  assumes "fst (transcribe ops env vid st) = Inr resp"
    and "mkdtemp_name env = Returns name"
    and "glob_glob env (audio_glob (tmpdir_of name)) = Returns (p # ps)"
    and "model_transcribe env p = Returns (g, d)"
  shows "\<forall>i < length (gen_items g).
    (s_words (gen_items g ! i) = None \<or> s_words (gen_items g ! i) = Some []
       \<longrightarrow> words (segments resp ! i) = None) \<and>
    (\<forall>src. s_words (gen_items g ! i) = Some src \<and> src \<noteq> []
       \<longrightarrow> words (segments resp ! i) \<noteq> None) \<and>
    (\<forall>src. s_words (gen_items g ! i) = Some src \<and> src \<noteq> [] \<and>
           (\<forall>w \<in> set src. strip (w_word w) = [])
       \<longrightarrow> words (segments resp ! i) = Some [])"
proof (intro allI impI)
  fix i
  assume i: "i < length (gen_items g)"
  from assms have loop: "shape_loop ops g [] = Inr (segments resp)"
    by (simp add: transcribe_result)
  from loop i have seg: "shape_segment ops (gen_items g ! i) = Inr (segments resp ! i)"
    by (rule shape_loop_nth(2))
  note w = shape_segment_words [OF seg]
  have a: "words (segments resp ! i) = None"
    if "s_words (gen_items g ! i) = None \<or> s_words (gen_items g ! i) = Some []"
    using that w by auto
  have b: "words (segments resp ! i) \<noteq> None"
    if "s_words (gen_items g ! i) = Some src \<and> src \<noteq> []" for src
  proof -
    from that obtain x xs where "s_words (gen_items g ! i) = Some (x # xs)"
      by (cases src) auto
    with seg show ?thesis
      by (auto dest: shape_segment_words_present)
  qed
  have c: "words (segments resp ! i) = Some []"
    if "s_words (gen_items g ! i) = Some src \<and> src \<noteq> [] \<and>
        (\<forall>w \<in> set src. strip (w_word w) = [])" for src
  proof -
    from that obtain x xs where s: "s_words (gen_items g ! i) = Some (x # xs)"
      and src: "src = x # xs"
      by (cases src) auto
    from that src have "\<forall>w \<in> set (x # xs). strip (w_word w) = []" by blast
    then have "shape_words ops (x # xs) = Inr []"
      by (rule shape_words_all_blank)
    with shape_segment_words_present [OF seg s] show ?thesis
      by auto
  qed
  from a b c show "(s_words (gen_items g ! i) = None \<or> s_words (gen_items g ! i) = Some []
       \<longrightarrow> words (segments resp ! i) = None) \<and>
    (\<forall>src. s_words (gen_items g ! i) = Some src \<and> src \<noteq> []
       \<longrightarrow> words (segments resp ! i) \<noteq> None) \<and>
    (\<forall>src. s_words (gen_items g ! i) = Some src \<and> src \<noteq> [] \<and>
           (\<forall>w \<in> set src. strip (w_word w) = [])
       \<longrightarrow> words (segments resp ! i) = Some [])"
    by blast
qed

theorem words_key_presence_witness:
  "fst (transcribe whole_ops env_ok vid0 st0) = Inr resp0 \<and>
   s_words (gen_items gen0 ! 1) = Some [\<lparr>w_word = lit '' '', w_start = 2\<rparr>] \<and>
   strip (lit '' '') = [] \<and>
   words (segments resp0 ! 1) = Some [] \<and>
   s_words (gen_items gen0 ! 2) = None \<and>
   words (segments resp0 ! 2) = None"
proof -
  note t = words_key_presence [OF world_ok_result world_ok_mkdtemp world_ok_glob world_ok_engine]
  have s1: "s_words (gen_items gen0 ! 1) = Some [\<lparr>w_word = lit '' '', w_start = 2\<rparr>]"
    by (simp add: gen0_def seg_blank_def)
  have blank: "strip (lit '' '') = []" by (simp add: lit_def strip_def isspace_def)
  have s2: "s_words (gen_items gen0 ! 2) = None"
    by (simp add: gen0_def seg_nowords_def)
  have i1: "1 < length (gen_items gen0)" and i2: "2 < length (gen_items gen0)"
    by (simp_all add: gen0_def)
  from t i1 s1 blank have "words (segments resp0 ! 1) = Some []" by simp
  moreover from t i2 s2 have "words (segments resp0 ! 2) = None" by blast
  ultimately show ?thesis using world_ok_result s1 s2 blank by simp
qed

section \<open>Claims about validation and the temp directory\<close>

text \<open>
  Claim C1. A request whose \<open>video_id\<close> is not exactly 11 characters long (the empty
  string included) makes the handler raise \<open>HTTPException(400, "Invalid video_id")\<close>
  and leaves the state as it was: no temp directory, no downloader run, no model load,
  no transcription, not even a log line.
\<close>

theorem invalid_video_id_rejected:
  "length vid \<noteq> 11 \<Longrightarrow>
   transcribe ops env vid st = (Inl (HTTPException 400 (lit ''Invalid video_id'')), st)"
  by (simp add: transcribe_def)

theorem invalid_video_id_rejected_witness:
  "length ([] :: pystr) \<noteq> 11 \<and>
   transcribe whole_ops env_ok [] st0 = (Inl (HTTPException 400 (lit ''Invalid video_id'')), st0) \<and>
   length (lit ''short'') \<noteq> 11 \<and>
   transcribe whole_ops env_ok (lit ''short'') st0 =
     (Inl (HTTPException 400 (lit ''Invalid video_id'')), st0)"
proof -
  have a: "length ([] :: pystr) \<noteq> 11" by simp
  have b: "length (lit ''short'') \<noteq> 11" by (simp add: lit_def)
  from invalid_video_id_rejected [OF a] invalid_video_id_rejected [OF b] a b
  show ?thesis by blast
qed

lemma world_vid0_length: "length vid0 = 11"
  by (simp add: vid0_def lit_def)

lemma tmpdir_abc: "tmpdir_of (lit ''abc'') = lit ''/tmp/whisperx-abc''"
  by (simp add: tmpdir_of_def path_join_def lit_def)

text \<open>
  Claim C2, as stated, fails: the \<open>finally\<close> clause calls
  \<open>shutil.rmtree(tmpdir, ignore_errors=True)\<close>, so a removal that fails is silent and
  the directory created by the request still exists when the handler returns. Here the
  request succeeds, the removal does not.
\<close>

theorem tmpdir_survives_failed_rmtree:
  "Mkdtemp (lit ''/tmp/whisperx-abc'') \<in> set (trace (snd (transcribe whole_ops env_rmtree_fails vid0 st0))) \<and>
   lit ''/tmp/whisperx-abc'' \<notin> dirs st0 \<and>
   lit ''/tmp/whisperx-abc'' \<in> dirs (snd (transcribe whole_ops env_rmtree_fails vid0 st0))"
  by (simp add: env_rmtree_fails_def world_defs handler_defs str_nat.simps)

text \<open>
  Claim C2, amended. Once \<open>mkdtemp\<close> has returned, on every exit path of the handler
  (success, 502, 500) the last effect is \<open>rmtree\<close> on the request's temp directory,
  nothing else creates or removes a directory, and the directory no longer exists when
  the handler returns provided that removal goes through.
\<close>

theorem tmpdir_removed_when_rmtree_succeeds:
  assumes "length vid = 11" and "mkdtemp_name env = Returns name"
  shows "last (trace (snd (transcribe ops env vid st))) = Rmtree (tmpdir_of name) \<and>
    dirs (snd (transcribe ops env vid st)) =
      (if rmtree_removes env (tmpdir_of name) then dirs st - {tmpdir_of name}
       else insert (tmpdir_of name) (dirs st)) \<and>
    (rmtree_removes env (tmpdir_of name) \<longrightarrow>
       tmpdir_of name \<notin> dirs (snd (transcribe ops env vid st)))"
  by (simp add: transcribe_unfold [OF assms] rmtree_last rmtree_dirs transcribe_try_dirs)

theorem tmpdir_removed_when_rmtree_succeeds_witness:
  "length vid0 = 11 \<and> mkdtemp_name env_ok = Returns (lit ''abc'') \<and>
   rmtree_removes env_ok (tmpdir_of (lit ''abc'')) \<and>
   last (trace (snd (transcribe whole_ops env_ok vid0 st0))) = Rmtree (tmpdir_of (lit ''abc'')) \<and>
   tmpdir_of (lit ''abc'') \<notin> dirs (snd (transcribe whole_ops env_ok vid0 st0))"
proof -
  have r: "rmtree_removes env_ok (tmpdir_of (lit ''abc''))" by (simp add: env_ok_def)
  from tmpdir_removed_when_rmtree_succeeds [OF world_vid0_length world_ok_mkdtemp, of whole_ops st0] r
  show ?thesis using world_vid0_length world_ok_mkdtemp by simp
qed

section \<open>Claims about the fetch errors\<close>

lemma fetch_audio_download_failed:
  assumes "subprocess_run env (downloader_argv env tmpdir vid) = Returns r"
    and "returncode r \<noteq> 0"
  shows "fetch_audio env vid tmpdir st =
    (Inl (HTTPException 502 (lit ''Audio download failed: '' @ take 300 (stderr r))),
     emit (SubprocessRun (downloader_argv env tmpdir vid)) st)"
  using assms by (simp add: fetch_audio_def Let_def)

lemma fetch_audio_too_small:
  assumes "subprocess_run env (downloader_argv env tmpdir vid) = Returns r"
    and "returncode r = 0"
    and "glob_glob env (audio_glob tmpdir) = Returns (p # ps)"
    and "getsize env p = Returns n"
    and "n < 1000"
  shows "fetch_audio env vid tmpdir st =
    (Inl (HTTPException 502 (lit ''Audio too small ('' @ str_nat n @ lit '' bytes)'')),
     emit (Getsize p) (emit (Glob (audio_glob tmpdir))
       (emit (SubprocessRun (downloader_argv env tmpdir vid)) st)))"
  using assms by (simp add: fetch_audio_def Let_def)

lemma transcribe_try_fetch_error:
  assumes "fetch_audio env vid tmpdir st = (Inl e, st1)"
  shows "transcribe_try ops env vid tmpdir st = (Inl e, st1)"
  using assms by (simp add: transcribe_try_def)

text \<open>
  Claim C5. When the downloader exits with a non-zero return code, the handler raises
  \<open>HTTPException(502, "Audio download failed: " + stderr[:300])\<close>: the message holds a
  prefix of the error stream of at most 300 characters. The effects of the request are
  the temp directory, the downloader run and the removal of the directory; the model is
  neither loaded nor asked to transcribe.
\<close>

theorem download_failure_is_502:
  assumes "length vid = 11"
    and "mkdtemp_name env = Returns name"
    and "subprocess_run env (downloader_argv env (tmpdir_of name) vid) = Returns r"
    and "returncode r \<noteq> 0"
  shows "fst (transcribe ops env vid st) =
      Inl (HTTPException 502 (lit ''Audio download failed: '' @ take 300 (stderr r))) \<and>
    prefix (take 300 (stderr r)) (stderr r) \<and> length (take 300 (stderr r)) \<le> 300 \<and>
    trace (snd (transcribe ops env vid st)) =
      trace st @ [Mkdtemp (tmpdir_of name),
                  SubprocessRun (downloader_argv env (tmpdir_of name) vid),
                  Rmtree (tmpdir_of name)] \<and>
    model_loaded (snd (transcribe ops env vid st)) = model_loaded st"
proof -
  let ?st1 = "emit (Mkdtemp (tmpdir_of name)) (st\<lparr>dirs := insert (tmpdir_of name) (dirs st)\<rparr>)"
  have "transcribe_try ops env vid (tmpdir_of name) ?st1 =
    (Inl (HTTPException 502 (lit ''Audio download failed: '' @ take 300 (stderr r))),
     emit (SubprocessRun (downloader_argv env (tmpdir_of name) vid)) ?st1)"
    by (rule transcribe_try_fetch_error) (rule fetch_audio_download_failed [OF assms(3,4)])
  then show ?thesis
    by (simp add: transcribe_unfold [OF assms(1,2)] rmtree_def take_is_prefix)
qed

theorem download_failure_is_502_witness:
  "length vid0 = 11 \<and> mkdtemp_name env_download_fails = Returns (lit ''abc'') \<and>
   subprocess_run env_download_fails (downloader_argv env_download_fails (tmpdir_of (lit ''abc'')) vid0)
     = Returns \<lparr>returncode = 1, stdout = [], stderr = lit ''ERROR: Video unavailable''\<rparr> \<and>
   (1::int) \<noteq> 0 \<and>
   fst (transcribe whole_ops env_download_fails vid0 st0) =
     Inl (HTTPException 502 (lit ''Audio download failed: ERROR: Video unavailable'')) \<and>
   trace (snd (transcribe whole_ops env_download_fails vid0 st0)) =
     [Mkdtemp (tmpdir_of (lit ''abc'')),
      SubprocessRun (downloader_argv env_download_fails (tmpdir_of (lit ''abc'')) vid0),
      Rmtree (tmpdir_of (lit ''abc''))]"
proof -
  let ?r = "\<lparr>returncode = 1, stdout = [], stderr = lit ''ERROR: Video unavailable''\<rparr>"
  have m: "mkdtemp_name env_download_fails = Returns (lit ''abc'')"
    by (simp add: env_download_fails_def env_ok_def)
  have s: "subprocess_run env_download_fails
             (downloader_argv env_download_fails (tmpdir_of (lit ''abc'')) vid0) = Returns ?r"
    by (simp add: env_download_fails_def)
  have c: "returncode ?r \<noteq> 0" by simp
  from download_failure_is_502 [OF world_vid0_length m s c, of whole_ops st0]
  show ?thesis using world_vid0_length m s by (simp add: st0_def lit_def)
qed

text \<open>
  Claim C6. When the downloader has written a file of fewer than 1000 bytes, the handler
  raises \<open>HTTPException(502, "Audio too small (N bytes)")\<close> with \<open>N\<close> the decimal
  rendering of the size. The effects stop at \<open>getsize\<close> and the removal of the
  directory; the model is neither loaded nor asked to transcribe.
\<close>

theorem small_audio_is_502:
  assumes "length vid = 11"
    and "mkdtemp_name env = Returns name"
    and "subprocess_run env (downloader_argv env (tmpdir_of name) vid) = Returns r"
    and "returncode r = 0"
    and "glob_glob env (audio_glob (tmpdir_of name)) = Returns (p # ps)"
    and "getsize env p = Returns n"
    and "n < 1000"
  shows "fst (transcribe ops env vid st) =
      Inl (HTTPException 502 (lit ''Audio too small ('' @ str_nat n @ lit '' bytes)'')) \<and>
    decimal_value (str_nat n) = n \<and>
    trace (snd (transcribe ops env vid st)) =
      trace st @ [Mkdtemp (tmpdir_of name),
                  SubprocessRun (downloader_argv env (tmpdir_of name) vid),
                  Glob (audio_glob (tmpdir_of name)),
                  Getsize p,
                  Rmtree (tmpdir_of name)] \<and>
    model_loaded (snd (transcribe ops env vid st)) = model_loaded st"
proof -
  let ?st1 = "emit (Mkdtemp (tmpdir_of name)) (st\<lparr>dirs := insert (tmpdir_of name) (dirs st)\<rparr>)"
  have "transcribe_try ops env vid (tmpdir_of name) ?st1 =
    (Inl (HTTPException 502 (lit ''Audio too small ('' @ str_nat n @ lit '' bytes)'')),
     emit (Getsize p) (emit (Glob (audio_glob (tmpdir_of name)))
       (emit (SubprocessRun (downloader_argv env (tmpdir_of name) vid)) ?st1)))"
    by (rule transcribe_try_fetch_error) (rule fetch_audio_too_small [OF assms(3-7)])
  then show ?thesis
    by (simp add: transcribe_unfold [OF assms(1,2)] rmtree_def str_nat_decimal)
qed

theorem small_audio_is_502_witness:
  "length vid0 = 11 \<and> mkdtemp_name env_small_audio = Returns (lit ''abc'') \<and>
   glob_glob env_small_audio (audio_glob (tmpdir_of (lit ''abc''))) = Returns [audio0] \<and>
   getsize env_small_audio audio0 = Returns 512 \<and> (512::nat) < 1000 \<and>
   fst (transcribe whole_ops env_small_audio vid0 st0) =
     Inl (HTTPException 502 (lit ''Audio too small (512 bytes)'')) \<and>
   trace (snd (transcribe whole_ops env_small_audio vid0 st0)) =
     [Mkdtemp (tmpdir_of (lit ''abc'')),
      SubprocessRun (downloader_argv env_small_audio (tmpdir_of (lit ''abc'')) vid0),
      Glob (audio_glob (tmpdir_of (lit ''abc''))),
      Getsize audio0,
      Rmtree (tmpdir_of (lit ''abc''))]"
proof -
  let ?r = "\<lparr>returncode = 0, stdout = [], stderr = []\<rparr>"
  have m: "mkdtemp_name env_small_audio = Returns (lit ''abc'')"
    by (simp add: env_small_audio_def env_ok_def)
  have s: "subprocess_run env_small_audio
             (downloader_argv env_small_audio (tmpdir_of (lit ''abc'')) vid0) = Returns ?r"
    by (simp add: env_small_audio_def env_ok_def)
  have c: "returncode ?r = 0" by simp
  have g: "glob_glob env_small_audio (audio_glob (tmpdir_of (lit ''abc''))) = Returns (audio0 # [])"
    by (simp add: env_small_audio_def env_ok_def)
  have z: "getsize env_small_audio audio0 = Returns 512"
    by (simp add: env_small_audio_def)
  have l: "(512::nat) < 1000" by simp
  from small_audio_is_502 [OF world_vid0_length m s c g z l, of whole_ops st0]
  show ?thesis using world_vid0_length m g z
    by (simp add: st0_def lit_def str_nat.simps)
qed

section \<open>Claims about unexpected exceptions\<close>

text \<open>
  Claim C7, as stated, fails: \<open>tempfile.mkdtemp\<close> is called after the validation and
  before the \<open>try\<close>, so an exception it raises is not caught by
  \<open>except Exception\<close>: it leaves the handler as it is, not as
  \<open>HTTPException(500, str(e))\<close>.
\<close>

theorem mkdtemp_failure_not_converted:
  "fst (transcribe whole_ops env_mkdtemp_fails vid0 st0) =
     Inl (Exception (lit ''[Errno 28] No space left on device'')) \<and>
   fst (transcribe whole_ops env_mkdtemp_fails vid0 st0) \<noteq>
     Inl (HTTPException 500 (lit ''[Errno 28] No space left on device''))"
  by (simp add: env_mkdtemp_fails_def env_ok_def vid0_def transcribe_def lit_def)

text \<open>Where an exception of a collaborator surfaces in the body of the \<open>try\<close>.\<close>

lemma try_raises_run:
  "subprocess_run env (downloader_argv env tmpdir vid) = Raises e \<Longrightarrow>
   fst (transcribe_try ops env vid tmpdir st) = Inl (Exception e)"
  by (simp add: transcribe_try_def fetch_audio_def Let_def)

lemma try_raises_glob:
  "subprocess_run env (downloader_argv env tmpdir vid) = Returns r \<Longrightarrow> returncode r = 0 \<Longrightarrow>
   glob_glob env (audio_glob tmpdir) = Raises e \<Longrightarrow>
   fst (transcribe_try ops env vid tmpdir st) = Inl (Exception e)"
  by (simp add: transcribe_try_def fetch_audio_def Let_def)

lemma try_raises_getsize:
  "subprocess_run env (downloader_argv env tmpdir vid) = Returns r \<Longrightarrow> returncode r = 0 \<Longrightarrow>
   glob_glob env (audio_glob tmpdir) = Returns (p # ps) \<Longrightarrow> getsize env p = Raises e \<Longrightarrow>
   fst (transcribe_try ops env vid tmpdir st) = Inl (Exception e)"
  by (simp add: transcribe_try_def fetch_audio_def Let_def)

lemma try_raises_print:
  assumes "subprocess_run env (downloader_argv env tmpdir vid) = Returns r" and "returncode r = 0"
    and "glob_glob env (audio_glob tmpdir) = Returns (p # ps)" and "getsize env p = Returns n"
    and "\<not> n < 1000"
    and "print_out env (lit ''[whisperx] '' @ vid @ lit '': downloaded '' @ str_nat n
                        @ lit '' bytes to '' @ p) = Raises e"
  shows "fst (transcribe_try ops env vid tmpdir st) = Inl (Exception e)"
  using assms by (simp add: transcribe_try_def fetch_audio_def py_print_def Let_def)

lemma fetch_audio_ok:
  assumes "subprocess_run env (downloader_argv env tmpdir vid) = Returns r" and "returncode r = 0"
    and "glob_glob env (audio_glob tmpdir) = Returns (p # ps)" and "getsize env p = Returns n"
    and "\<not> n < 1000"
    and "print_out env (lit ''[whisperx] '' @ vid @ lit '': downloaded '' @ str_nat n
                        @ lit '' bytes to '' @ p) = Returns ()"
  shows "fst (fetch_audio env vid tmpdir st) = Inr p"
  using assms by (simp add: fetch_audio_def py_print_def Let_def)

lemma run_engine_raises_load:
  "\<not> model_loaded st \<Longrightarrow>
   print_out env (lit ''[whisperx] Loading model on GPU...'') = Returns () \<Longrightarrow>
   load_model env = Raises e \<Longrightarrow>
   fst (run_engine ops env vid p st) = Inl (Exception e)"
  by (simp add: run_engine_def get_model_def py_print_def Let_def)


lemma run_engine_raises_transcribe:
  assumes "fst (get_model env st) = Inr ()" and "model_transcribe env p = Raises e"
  shows "fst (run_engine ops env vid p st) = Inl (Exception e)"
proof (cases "get_model env st")
  case (Pair r st1)
  with assms(1) have "r = Inr ()" by simp
  with Pair assms(2) show ?thesis by (simp add: run_engine_def Let_def)
qed

lemma shape_loop_gen_raises:
  "shape_loop ops (GenRaises e) acc = Inl (Exception e)"
  by simp

text \<open>
  Claim C7, amended. Once the temp directory exists, an exception raised in the body of
  the \<open>try\<close> that is not an \<open>HTTPException\<close> leaves the handler as
  \<open>HTTPException(500, str(e))\<close> (so does, for one, a failure or timeout of
  \<open>subprocess.run\<close>), an \<open>HTTPException\<close> raised there leaves it with its status
  and detail unchanged, and no other exception leaves the handler. The 400 of the
  validation is raised before the \<open>try\<close>, where no \<open>except\<close> clause applies, and
  reaches the caller as it is.
\<close>

theorem exceptions_in_try_mapped:
  assumes "length vid = 11" and "mkdtemp_name env = Returns name"
    and "st1 = emit (Mkdtemp (tmpdir_of name)) (st\<lparr>dirs := insert (tmpdir_of name) (dirs st)\<rparr>)"
  shows "(\<forall>e. fst (transcribe_try ops env vid (tmpdir_of name) st1) = Inl (Exception e) \<longrightarrow>
              fst (transcribe ops env vid st) = Inl (HTTPException 500 e)) \<and>
         (\<forall>status detail.
              fst (transcribe_try ops env vid (tmpdir_of name) st1) = Inl (HTTPException status detail) \<longrightarrow>
              fst (transcribe ops env vid st) = Inl (HTTPException status detail)) \<and>
         (\<forall>e. subprocess_run env (downloader_argv env (tmpdir_of name) vid) = Raises e \<longrightarrow>
              fst (transcribe ops env vid st) = Inl (HTTPException 500 e)) \<and>
         (\<forall>e. fst (transcribe ops env vid st) \<noteq> Inl (Exception e))"
  by (simp add: transcribe_unfold [OF assms(1,2)] assms(3) except_clauses_not_Exception
        try_raises_run)

theorem exceptions_in_try_mapped_witness:
  "length vid0 = 11 \<and> mkdtemp_name env_engine_fails = Returns (lit ''abc'') \<and>
   fst (transcribe_try whole_ops env_engine_fails vid0 (tmpdir_of (lit ''abc''))
          (emit (Mkdtemp (tmpdir_of (lit ''abc'')))
             (st0\<lparr>dirs := insert (tmpdir_of (lit ''abc'')) (dirs st0)\<rparr>)))
     = Inl (Exception (lit ''CUDA out of memory'')) \<and>
   fst (transcribe whole_ops env_engine_fails vid0 st0) =
     Inl (HTTPException 500 (lit ''CUDA out of memory'')) \<and>
   mkdtemp_name env_download_fails = Returns (lit ''abc'') \<and>
   fst (transcribe_try whole_ops env_download_fails vid0 (tmpdir_of (lit ''abc''))
          (emit (Mkdtemp (tmpdir_of (lit ''abc'')))
             (st0\<lparr>dirs := insert (tmpdir_of (lit ''abc'')) (dirs st0)\<rparr>)))
     = Inl (HTTPException 502 (lit ''Audio download failed: ERROR: Video unavailable'')) \<and>
   fst (transcribe whole_ops env_download_fails vid0 st0) =
     Inl (HTTPException 502 (lit ''Audio download failed: ERROR: Video unavailable''))"
proof -
  let ?st1 = "emit (Mkdtemp (tmpdir_of (lit ''abc'')))
             (st0\<lparr>dirs := insert (tmpdir_of (lit ''abc'')) (dirs st0)\<rparr>)"
  have m1: "mkdtemp_name env_engine_fails = Returns (lit ''abc'')"
    by (simp add: env_engine_fails_def env_ok_def)
  have m2: "mkdtemp_name env_download_fails = Returns (lit ''abc'')"
    by (simp add: env_download_fails_def env_ok_def)
  have b1: "fst (transcribe_try whole_ops env_engine_fails vid0 (tmpdir_of (lit ''abc'')) ?st1)
              = Inl (Exception (lit ''CUDA out of memory''))"
    by (simp add: env_engine_fails_def world_defs handler_defs str_nat.simps)
  have b2: "fst (transcribe_try whole_ops env_download_fails vid0 (tmpdir_of (lit ''abc'')) ?st1)
              = Inl (HTTPException 502 (lit ''Audio download failed: ERROR: Video unavailable''))"
    by (simp add: env_download_fails_def world_defs handler_defs str_nat.simps)
  from exceptions_in_try_mapped [OF world_vid0_length m1 refl, of whole_ops st0] b1
  have c1: "fst (transcribe whole_ops env_engine_fails vid0 st0) =
     Inl (HTTPException 500 (lit ''CUDA out of memory''))" by blast
  from exceptions_in_try_mapped [OF world_vid0_length m2 refl, of whole_ops st0] b2
  have c2: "fst (transcribe whole_ops env_download_fails vid0 st0) =
     Inl (HTTPException 502 (lit ''Audio download failed: ERROR: Video unavailable''))" by blast
  from world_vid0_length m1 m2 b1 b2 c1 c2 show ?thesis by blast
qed

section \<open>Claims about the registration at startup\<close>










end
